theory Spec2Isabelle
  imports Complex_Main "HOL-Library.Sublist" "HOL-Library.AList"
begin

section \<open>Python values used by zerver/forms.py\<close>

text \<open>
  A Python \<open>str\<close> is a sequence of code points. The model writes it as a \<open>string\<close>, one
  \<open>char\<close> for each code point, so \<open>length\<close> is Python's \<open>len\<close>; code points above 255 are
  outside the model. Every \<open>raise\<close> of the source is a value of \<open>exn\<close>, and a function that
  can raise returns \<open>exn + 'a\<close> with \<open>Inl\<close> for the exception.
\<close>

datatype exn =
    ValidationError string "string option" "(string \<times> string) list"
  | AssertionError string
  | IndexError
  | KeyError string
  | RateLimited "real option"
  | DoesNotExist

text \<open>
  \<open>ValidationError message code params\<close>: Django's exception with its optional \<open>code\<close> and
  \<open>params\<close>. \<open>RateLimited secs_to_freedom\<close> is \<open>zerver.lib.exceptions.RateLimited\<close>, whose
  argument is optional. \<open>DoesNotExist\<close> is \<open>Realm.DoesNotExist\<close>, which \<open>get_realm\<close> raises
  (see \<open>RealmRedirectForm.clean_subdomain\<close>).
\<close>

definition validation_error :: "string \<Rightarrow> exn" where
  "validation_error message = ValidationError message None []"

text \<open>\<open>jinja2.utils.Markup\<close> is a subclass of \<open>str\<close> with the same characters.\<close>

definition mark_safe :: "string \<Rightarrow> string" where
  "mark_safe s = s"

text \<open>\<open>xs[i]\<close>: an index below zero counts from the end, and an index out of range raises.\<close>

definition py_index :: "'a list \<Rightarrow> int \<Rightarrow> exn + 'a" where
  "py_index xs i =
     (if 0 \<le> i \<and> i < int (length xs) then Inr (xs ! nat i)
      else if i < 0 \<and> - int (length xs) \<le> i then Inr (xs ! nat (int (length xs) + i))
      else Inl IndexError)"

text \<open>\<open>str(n)\<close> for an integer: decimal digits, with a leading minus sign below zero.\<close>

fun digits10 :: "nat \<Rightarrow> string" where
  "digits10 n =
     (if n < 10 then [''0123456789'' ! n]
      else digits10 (n div 10) @ [''0123456789'' ! (n mod 10)])"

declare digits10.simps [simp del]

definition str_of_int :: "int \<Rightarrow> string" where
  "str_of_int i = (if i < 0 then CHR ''-'' # digits10 (nat (- i)) else digits10 (nat i))"

text \<open>
  \<open>int(x)\<close> for a float truncates towards zero. A float is modelled by the real number it
  stands for; infinities and NaN, on which \<open>int\<close> raises, are not modelled.
\<close>

definition py_int :: "real \<Rightarrow> int" where
  "py_int x = (if 0 \<le> x then \<lfloor>x\<rfloor> else \<lceil>x\<rceil>)"

text \<open>
  \<open>template.format(arg)\<close> for a template with one replacement field \<open>{}\<close> and no other
  brace: the field is replaced by the argument.
\<close>

fun format1 :: "string \<Rightarrow> string \<Rightarrow> string" where
  "format1 [] arg = []"
| "format1 [c] arg = [c]"
| "format1 (c # d # cs) arg =
     (if c = CHR ''{'' \<and> d = CHR ''}'' then arg @ cs else c # format1 (d # cs) arg)"

text \<open>
  \<open>template % args\<close> for a template whose only conversions are \<open>%s\<close> and whose arguments
  are strings: each \<open>%s\<close> takes the next argument. The \<open>logging\<close> module renders a record
  this way.
\<close>

fun percent_format :: "string \<Rightarrow> string list \<Rightarrow> string" where
  "percent_format [] args = []"
| "percent_format [c] args = [c]"
| "percent_format (c # d # cs) args =
     (if c = CHR ''%'' \<and> d = CHR ''s'' then
        (case args of [] \<Rightarrow> c # d # cs | a # rest \<Rightarrow> a @ percent_format cs rest)
      else c # percent_format (d # cs) args)"


section \<open>Subdomain validation: \<open>check_subdomain_available\<close>\<close>

text \<open>
  What the function reads from outside zerver/forms.py: the sentinel
  \<open>Realm.SUBDOMAIN_FOR_ROOT_DOMAIN\<close>, \<open>is_root_domain_available()\<close>, the query
  \<open>Realm.objects.filter(string_id=subdomain).exists()\<close>, \<open>is_reserved_subdomain\<close> and the
  translation function \<open>_\<close> (gettext).
\<close>

record realm_env =
  SUBDOMAIN_FOR_ROOT_DOMAIN :: string
  is_root_domain_available :: bool
  realm_exists :: "string \<Rightarrow> bool"
  is_reserved_subdomain :: "string \<Rightarrow> bool"
  gettext :: "string \<Rightarrow> string"

datatype error_key = too_short | extremal_dash | bad_character | unavailable

fun error_strings :: "realm_env \<Rightarrow> error_key \<Rightarrow> string" where
  "error_strings env too_short = gettext env ''Subdomain needs to have length 3 or greater.''"
| "error_strings env extremal_dash = gettext env ''Subdomain cannot start or end with a '-'.''"
| "error_strings env bad_character =
     gettext env ''Subdomain can only have lowercase letters, numbers, and '-'s.''"
| "error_strings env unavailable =
     gettext env ''Subdomain unavailable. Please choose a different one.''"

definition subdomain_char :: "char \<Rightarrow> bool" where
  "subdomain_char c =
     (let n = (of_char c :: nat)
      in (97 \<le> n \<and> n \<le> 122) \<or> (48 \<le> n \<and> n \<le> 57) \<or> c = CHR ''-'')"

text \<open>
  \<open>re.match("^[a-z0-9-]*$", s)\<close>: in Python \<open>$\<close> matches at the end of the string and also
  just before a newline that ends the string.
\<close>

definition re_match_subdomain :: "string \<Rightarrow> bool" where
  "re_match_subdomain s =
     (list_all subdomain_char s \<or>
      (s \<noteq> [] \<and> last s = CHR 0x0A \<and> list_all subdomain_char (butlast s)))"

definition check_subdomain_available :: "realm_env \<Rightarrow> string \<Rightarrow> bool \<Rightarrow> exn + unit" where
  "check_subdomain_available env subdomain allow_reserved_subdomain =
     (if subdomain = SUBDOMAIN_FOR_ROOT_DOMAIN env then
        (if is_root_domain_available env then Inr ()
         else Inl (validation_error (error_strings env unavailable)))
      else
        (case py_index subdomain 0 of
           Inl e \<Rightarrow> Inl e
         | Inr first \<Rightarrow>
             if first = CHR ''-'' then Inl (validation_error (error_strings env extremal_dash))
             else
               (case py_index subdomain (- 1) of
                  Inl e \<Rightarrow> Inl e
                | Inr final \<Rightarrow>
                    if final = CHR ''-'' then
                      Inl (validation_error (error_strings env extremal_dash))
                    else if \<not> re_match_subdomain subdomain then
                      Inl (validation_error (error_strings env bad_character))
                    else if length subdomain < 3 then
                      Inl (validation_error (error_strings env too_short))
                    else if realm_exists env subdomain then
                      Inl (validation_error (error_strings env unavailable))
                    else if is_reserved_subdomain env subdomain \<and> \<not> allow_reserved_subdomain then
                      Inl (validation_error (error_strings env unavailable))
                    else Inr ())))"

text \<open>
  A deployment for the examples: the root-domain sentinel is the empty string (its value in
  \<open>zerver.models.Realm\<close>), the root domain is free, the realm \<open>acme\<close> exists, \<open>www\<close> is
  reserved, and messages are not translated.
\<close>

definition example_realms :: realm_env where
  "example_realms =
     \<lparr> SUBDOMAIN_FOR_ROOT_DOMAIN = [],
       is_root_domain_available = True,
       realm_exists = (\<lambda>s. s = ''acme''),
       is_reserved_subdomain = (\<lambda>s. s = ''www''),
       gettext = (\<lambda>s. s) \<rparr>"

text \<open>The same deployment with a sentinel that is not empty.\<close>

definition example_realms_root :: realm_env where
  "example_realms_root = example_realms \<lparr> SUBDOMAIN_FOR_ROOT_DOMAIN := ''root'' \<rparr>"



section \<open>Realms, users, requests and effects\<close>

text \<open>
  The fields of \<open>Realm\<close>, \<open>UserProfile\<close> and \<open>HttpRequest\<close> that zerver/forms.py reads.
  \<open>user_id\<close> is the source's \<open>id\<close> and \<open>user_realm\<close> its \<open>realm\<close>; \<open>request_host\<close> stands for
  what \<open>get_subdomain\<close> reads from the request.
\<close>

record realm =
  string_id :: string
  deactivated :: bool
  uri :: string
  realm_name :: string

record user_profile =
  user_id :: int
  delivery_email :: string
  is_active :: bool
  user_realm :: realm

record http_request =
  request_host :: string
  LANGUAGE_CODE :: string

text \<open>
  A call of \<open>logging.info\<close> or \<open>logging.warning\<close> appends a record holding the level, the
  template and its arguments; \<open>getMessage\<close> renders it as the \<open>logging\<close> module does.
\<close>

datatype log_level = INFO | WARNING

record log_record =
  levelname :: log_level
  log_msg :: string
  log_args :: "string list"

definition getMessage :: "log_record \<Rightarrow> string" where
  "getMessage r = percent_format (log_msg r) (log_args r)"

text \<open>
  A call of \<open>send_email\<close> appends its arguments to the outbox; a keyword the call leaves out
  is \<open>None\<close>. Values of the template context are strings, booleans or a query result.
\<close>

datatype context_value = CStr string | CBool bool | CUsers "user_profile list"

record email_msg =
  template_prefix :: string
  to_user_ids :: "int list option"
  to_emails :: "string list option"
  from_name :: "string option"
  from_address :: "string option"
  email_language :: "string option"
  email_context :: "(string \<times> context_value) list"
  email_realm :: "realm option"

text \<open>
  The effects of a form method: the log, the outbox, and the state \<open>ext\<close> of the
  collaborators outside this file (the rate limiter's counters, the authentication
  backends), which only those collaborators change.
\<close>

record 'x world =
  logs :: "log_record list"
  outbox :: "email_msg list"
  ext :: 'x

definition logging_info :: "string \<Rightarrow> string list \<Rightarrow> 'x world \<Rightarrow> 'x world" where
  "logging_info template arguments w =
     w \<lparr> logs := logs w @ [\<lparr> levelname = INFO, log_msg = template, log_args = arguments \<rparr>] \<rparr>"

definition logging_warning :: "string \<Rightarrow> string list \<Rightarrow> 'x world \<Rightarrow> 'x world" where
  "logging_warning template arguments w =
     w \<lparr> logs := logs w @ [\<lparr> levelname = WARNING, log_msg = template, log_args = arguments \<rparr>] \<rparr>"

definition send_email :: "email_msg \<Rightarrow> 'x world \<Rightarrow> 'x world" where
  "send_email m w = w \<lparr> outbox := outbox w @ [m] \<rparr>"

text \<open>
  The result of \<open>django.contrib.auth.authenticate\<close> as \<open>OurAuthenticationForm.clean\<close> sees
  it: an exception, or the user (or \<open>None\<close>) together with the \<open>return_data\<close> dictionary the
  backends filled in. A flag of \<open>return_data\<close> counts when its value is truthy.
\<close>

datatype auth_result =
    Raised exn
  | Returned "user_profile option" "string \<rightharpoonup> bool"

definition flag :: "(string \<rightharpoonup> bool) \<Rightarrow> string \<Rightarrow> bool" where
  "flag return_data k = (case return_data k of None \<Rightarrow> False | Some b \<Rightarrow> b)"

text \<open>
  The collaborators of the password-reset and login forms, all outside zerver/forms.py:
  \<^item> \<open>get_subdomain\<close>, \<open>get_realm\<close> (\<open>None\<close> when it raises \<open>Realm.DoesNotExist\<close>),
    \<open>email_auth_enabled\<close>, \<open>email_belongs_to_ldap\<close>;
  \<^item> \<open>settings.RATE_LIMITING\<close>, \<open>settings.RATE_LIMITING_RULES\<close>, and
    \<open>RateLimitedObject.rate_limit\<close> as a function of the object's key and rules, which
    returns \<open>(ratelimited, secs_to_freedom)\<close> and updates the limiter's state;
  \<^item> \<open>get_user_by_delivery_email\<close> (\<open>None\<close> when it raises \<open>UserProfile.DoesNotExist\<close>) and
    the query \<open>UserProfile.objects.filter(delivery_email__iexact=email, is_active=True)\<close>;
  \<^item> \<open>urlsafe_base64_encode\<close>, \<open>reverse\<close>, the two uses of
    \<open>FromAddress.security_email_from_name\<close> and \<open>FromAddress.tokenized_no_reply_address\<close>;
  \<^item> \<open>authenticate\<close>, started on an empty \<open>return_data\<close>, and Django's
    \<open>confirm_login_allowed\<close> (\<open>Some e\<close> when it raises \<open>e\<close>),
    \<open>error_messages["invalid_login"]\<close> and \<open>username_field.verbose_name\<close>.
\<close>

record 'x env =
  get_subdomain :: "http_request \<Rightarrow> string"
  get_realm :: "string \<Rightarrow> realm option"
  email_auth_enabled :: "realm \<Rightarrow> bool"
  email_belongs_to_ldap :: "realm \<Rightarrow> string \<Rightarrow> bool"
  RATE_LIMITING :: bool
  RATE_LIMITING_RULES :: "string \<Rightarrow> (int \<times> int) list"
  rate_limit :: "string \<Rightarrow> (int \<times> int) list \<Rightarrow> 'x \<Rightarrow> (bool \<times> real) \<times> 'x"
  get_user_by_delivery_email :: "string \<Rightarrow> realm \<Rightarrow> user_profile option"
  active_accounts_iexact :: "string \<Rightarrow> user_profile list"
  urlsafe_base64_encode :: "string \<Rightarrow> string"
  reverse :: "string \<Rightarrow> (string \<times> string) list \<Rightarrow> string"
  security_email_from_name_user :: "user_profile \<Rightarrow> string"
  security_email_from_name_language :: "string \<Rightarrow> string"
  tokenized_no_reply_address :: string
  authenticate ::
    "http_request \<Rightarrow> string \<Rightarrow> string \<Rightarrow> realm \<Rightarrow> (string \<rightharpoonup> bool) \<Rightarrow> 'x \<Rightarrow> auth_result \<times> 'x"
  confirm_login_allowed :: "user_profile \<Rightarrow> exn option"
  invalid_login_message :: string
  username_verbose_name :: string


section \<open>Password reset: \<open>ZulipPasswordResetForm.save\<close> and its rate limit\<close>

text \<open>
  \<open>RateLimitedPasswordResetByEmail(email)\<close> holds the email it is given; \<open>key\<close> and \<open>rules\<close>
  are its two methods.
\<close>

definition key :: "string \<Rightarrow> string" where
  "key email = ''RateLimitedPasswordResetByEmail'' @ '':'' @ email"

definition rules :: "'x env \<Rightarrow> (int \<times> int) list" where
  "rules env = RATE_LIMITING_RULES env ''password_reset_form_by_email''"

definition rate_limit_password_reset_form_by_email ::
    "'x env \<Rightarrow> string \<Rightarrow> 'x \<Rightarrow> (exn + unit) \<times> 'x" where
  "rate_limit_password_reset_form_by_email env email x =
     (case rate_limit env (key email) (rules env) x of
        ((ratelimited, secs), x') \<Rightarrow>
          if ratelimited then (Inl (RateLimited None), x') else (Inr (), x'))"

text \<open>
  \<open>generate_password_reset_url\<close>; the token generator is given by its \<open>make_token\<close> method,
  and \<open>str(user_profile.id).encode()\<close> is the decimal string of the id.
\<close>

definition generate_password_reset_url ::
    "'x env \<Rightarrow> user_profile \<Rightarrow> (user_profile \<Rightarrow> string) \<Rightarrow> string" where
  "generate_password_reset_url env user token_generator =
     (let token = token_generator user;
          uid = urlsafe_base64_encode env (str_of_int (user_id user));
          endpoint = reverse env ''password_reset_confirm'' [(''uidb64'', uid), (''token'', token)]
      in uri (user_realm user) @ endpoint)"

record form =
  cleaned_data :: "string \<rightharpoonup> string"

text \<open>Lines 331 to 373 of \<open>save\<close>: the lookup of the user and the one call of \<open>send_email\<close>.\<close>

definition save_dispatch ::
    "'x env \<Rightarrow> string \<Rightarrow> realm \<Rightarrow> (user_profile \<Rightarrow> string) \<Rightarrow> http_request \<Rightarrow> 'x world \<Rightarrow>
     (exn + unit) \<times> 'x world" where
  "save_dispatch env email realm token_generator request w =
     (let found = get_user_by_delivery_email env email realm;
          context = [(''email'', CStr email), (''realm_uri'', CStr (uri realm)),
                     (''realm_name'', CStr (realm_name realm))];
          (context, user) =
            (case found of
               None \<Rightarrow> (context, None)
             | Some u \<Rightarrow>
                 if \<not> is_active u then
                   (AList.update ''user_deactivated'' (CBool True) context, None)
                 else (context, Some u))
      in case user of
           Some u \<Rightarrow>
             (let context = AList.update ''active_account_in_realm'' (CBool True) context;
                  context = AList.update ''reset_url''
                    (CStr (generate_password_reset_url env u token_generator)) context
              in (Inr (),
                  send_email
                    \<lparr> template_prefix = ''zerver/emails/password_reset'',
                      to_user_ids = Some [user_id u],
                      to_emails = None,
                      from_name = Some (security_email_from_name_user env u),
                      from_address = Some (tokenized_no_reply_address env),
                      email_language = None,
                      email_context = context,
                      email_realm = None \<rparr> w))
         | None \<Rightarrow>
             (let context = AList.update ''active_account_in_realm'' (CBool False) context;
                  active_accounts_in_other_realms = active_accounts_iexact env email;
                  context =
                    (if active_accounts_in_other_realms \<noteq> [] then
                       AList.update ''active_accounts_in_other_realms''
                         (CUsers active_accounts_in_other_realms) context
                     else context);
                  language = LANGUAGE_CODE request
              in (Inr (),
                  send_email
                    \<lparr> template_prefix = ''zerver/emails/password_reset'',
                      to_user_ids = None,
                      to_emails = Some [email],
                      from_name = Some (security_email_from_name_language env language),
                      from_address = Some (tokenized_no_reply_address env),
                      email_language = Some language,
                      email_context = context,
                      email_realm = Some realm \<rparr> w)))"

text \<open>
  \<open>save\<close>: lines 304 to 329 are the four early exits, each a \<open>logging.info\<close> and a \<open>return\<close>.
  The \<open>except RateLimited\<close> clause catches that exception only.
\<close>

definition save ::
    "'x env \<Rightarrow> form \<Rightarrow> (user_profile \<Rightarrow> string) \<Rightarrow> http_request \<Rightarrow> 'x world \<Rightarrow>
     (exn + unit) \<times> 'x world" where
  "save env self token_generator request w =
     (case cleaned_data self ''email'' of
        None \<Rightarrow> (Inl (KeyError ''email''), w)
      | Some email \<Rightarrow>
          (case get_realm env (get_subdomain env request) of
             None \<Rightarrow> (Inl DoesNotExist, w)
           | Some realm \<Rightarrow>
               if \<not> email_auth_enabled env realm then
                 (Inr (),
                  logging_info
                    ''Password reset attempted for %s even though password auth is disabled.''
                    [email] w)
               else if email_belongs_to_ldap env realm email then
                 (Inr (), logging_info ''Password reset not allowed for user in LDAP domain'' [] w)
               else if deactivated realm then
                 (Inr (), logging_info ''Realm is deactivated'' [] w)
               else if RATE_LIMITING env then
                 (case rate_limit_password_reset_form_by_email env email (ext w) of
                    (Inl e, x) \<Rightarrow>
                      (case e of
                         RateLimited secs \<Rightarrow>
                           (Inr (),
                            logging_info ''Too many password reset attempts for email %s''
                              [email] (w \<lparr> ext := x \<rparr>))
                       | _ \<Rightarrow> (Inl e, w \<lparr> ext := x \<rparr>))
                  | (Inr u, x) \<Rightarrow>
                      save_dispatch env email realm token_generator request (w \<lparr> ext := x \<rparr>))
               else save_dispatch env email realm token_generator request w))"


section \<open>Login: \<open>OurAuthenticationForm.clean\<close>\<close>

definition WRONG_SUBDOMAIN_ERROR :: string where
  "WRONG_SUBDOMAIN_ERROR =
     ''Your Zulip account is not a member of the ''
     @ ''organization associated with this subdomain.  ''
     @ ''Please contact your organization administrator with any questions.''"

definition DEACTIVATED_ACCOUNT_ERROR :: string where
  "DEACTIVATED_ACCOUNT_ERROR =
     ''Your account is no longer active. ''
     @ ''Please contact your organization administrator to reactivate it.''"

definition PASSWORD_RESET_NEEDED_ERROR :: string where
  "PASSWORD_RESET_NEEDED_ERROR =
     ''Your password has been disabled because it is too weak. ''
     @ ''Reset your password to create a new one.''"

definition AUTHENTICATION_RATE_LIMITED_ERROR :: string where
  "AUTHENTICATION_RATE_LIMITED_ERROR =
     ''You're making too many attempts to sign in. ''
     @ ''Try again in {} seconds or contact your organization administrator ''
     @ ''for help.''"

record auth_form = form +
  form_request :: http_request
  user_cache :: "user_profile option"

text \<open>
  \<open>clean\<close> returns \<open>self.cleaned_data\<close> or raises, assigns \<open>self.user_cache\<close>, and logs one
  warning on the wrong-subdomain branch. \<open>if username is not None and password\<close> holds when
  both are present and the password is not empty.
\<close>

definition clean ::
    "'x env \<Rightarrow> auth_form \<Rightarrow> 'x world \<Rightarrow> (exn + (string \<rightharpoonup> string)) \<times> auth_form \<times> 'x world" where
  "clean env self w =
     (case (cleaned_data self ''username'', cleaned_data self ''password'') of
        (Some username, Some password) \<Rightarrow>
          if password \<noteq> [] then
            (let subdomain = get_subdomain env (form_request self)
             in case get_realm env subdomain of
                  None \<Rightarrow> (Inl DoesNotExist, self, w)
                | Some realm \<Rightarrow>
                    (case authenticate env (form_request self) username password realm
                            Map.empty (ext w) of
                       (Raised e, x) \<Rightarrow>
                         (case e of
                            RateLimited secs_to_freedom \<Rightarrow>
                              (case secs_to_freedom of
                                 None \<Rightarrow> (Inl (AssertionError []), self, w \<lparr> ext := x \<rparr>)
                               | Some secs \<Rightarrow>
                                   (Inl (validation_error
                                          (format1 AUTHENTICATION_RATE_LIMITED_ERROR
                                             (str_of_int (py_int secs)))),
                                    self, w \<lparr> ext := x \<rparr>))
                          | _ \<Rightarrow> (Inl e, self, w \<lparr> ext := x \<rparr>))
                     | (Returned user return_data, x) \<Rightarrow>
                         (let self = self \<lparr> user_cache := user \<rparr>; w = w \<lparr> ext := x \<rparr>
                          in if flag return_data ''inactive_realm'' then
                               (Inl (AssertionError
                                      ''Programming error: inactive realm in authentication form''),
                                self, w)
                             else if flag return_data ''password_reset_needed'' then
                               (Inl (validation_error (mark_safe PASSWORD_RESET_NEEDED_ERROR)),
                                self, w)
                             else if flag return_data ''inactive_user''
                                     \<and> \<not> flag return_data ''is_mirror_dummy'' then
                               (Inl (validation_error (mark_safe DEACTIVATED_ACCOUNT_ERROR)),
                                self, w)
                             else if flag return_data ''invalid_subdomain'' then
                               (Inl (validation_error (mark_safe WRONG_SUBDOMAIN_ERROR)), self,
                                logging_warning
                                  ''User %s attempted password login to wrong subdomain %s''
                                  [username, subdomain] w)
                             else
                               (case user_cache self of
                                  None \<Rightarrow>
                                    (Inl (ValidationError (invalid_login_message env)
                                           (Some ''invalid_login'')
                                           [(''username'', username_verbose_name env)]),
                                     self, w)
                                | Some u \<Rightarrow>
                                    (case confirm_login_allowed env u of
                                       Some e \<Rightarrow> (Inl e, self, w)
                                     | None \<Rightarrow> (Inr (cleaned_data self), self, w))))))
          else (Inr (cleaned_data self), self, w)
      | _ \<Rightarrow> (Inr (cleaned_data self), self, w))"


section \<open>Team lookup: \<open>MultiEmailField\<close> and \<open>FindMyTeamForm\<close>\<close>

text \<open>
  \<open>str.isspace\<close> on one code point below 256: the characters 9 to 13, 28 to 32, 0x85 and
  0xA0. \<open>strip\<close> removes them from both ends.
\<close>

definition isspace :: "char \<Rightarrow> bool" where
  "isspace c =
     (let n = (of_char c :: nat)
      in (9 \<le> n \<and> n \<le> 13) \<or> (28 \<le> n \<and> n \<le> 32) \<or> n = 133 \<or> n = 160)"

definition strip :: "string \<Rightarrow> string" where
  "strip s = rev (dropWhile isspace (rev (dropWhile isspace s)))"

text \<open>\<open>s.split(sep)\<close> for a separator of one character: one more piece than separators.\<close>

fun str_split :: "char \<Rightarrow> string \<Rightarrow> string list" where
  "str_split sep [] = [[]]"
| "str_split sep (c # cs) =
     (if c = sep then [] # str_split sep cs
      else (case str_split sep cs of
              [] \<Rightarrow> [[c]]
            | piece # pieces \<Rightarrow> (c # piece) # pieces))"

text \<open>\<open>sep.join(pieces)\<close>, used to say what a split is.\<close>

fun str_join :: "char \<Rightarrow> string list \<Rightarrow> string" where
  "str_join sep [] = []"
| "str_join sep [piece] = piece"
| "str_join sep (piece # other # pieces) = piece @ sep # str_join sep (other # pieces)"

definition to_python :: "string \<Rightarrow> string list" where
  "to_python emails = (if emails = [] then [] else map strip (str_split CHR '','' emails))"

text \<open>
  \<open>clean_emails\<close> reads the parsed list from \<open>self.cleaned_data["emails"]\<close>; its first
  argument is the translation function \<open>_\<close>.
\<close>

definition clean_emails ::
    "(string \<Rightarrow> string) \<Rightarrow> (string \<rightharpoonup> string list) \<Rightarrow> exn + string list" where
  "clean_emails translate data =
     (case data ''emails'' of
        None \<Rightarrow> Inl (KeyError ''emails'')
      | Some emails \<Rightarrow>
          if length emails > 10 then
            Inl (validation_error (translate ''Please enter at most 10 emails.''))
          else Inr emails)"



section \<open>The backend behind \<open>authenticate\<close>\<close>

text \<open>
  Modelled from the spec: the authentication backends that \<open>authenticate\<close> runs
  (\<open>zproject/backends.py\<close>) are not part of zerver/forms.py. Sections 4.3 and 4.5 of the
  specification: the rate limiter is consulted for the key of \<open>(username, realm)\<close> first and
  returns \<open>(limited, retry_after_seconds)\<close>; if limited, the outcome is \<open>RateLimited\<close> and no
  credential comparison occurs; otherwise the decision is delegated to the credential
  authenticator, which is the only place where a password is compared.
\<close>

definition authenticate_spec ::
    "(string \<Rightarrow> 'x \<Rightarrow> (bool \<times> real option) \<times> 'x) \<Rightarrow>
     (string \<Rightarrow> realm \<Rightarrow> string) \<Rightarrow>
     (http_request \<Rightarrow> string \<Rightarrow> string \<Rightarrow> realm \<Rightarrow> (string \<rightharpoonup> bool) \<Rightarrow> 'x \<Rightarrow> auth_result \<times> 'x) \<Rightarrow>
     http_request \<Rightarrow> string \<Rightarrow> string \<Rightarrow> realm \<Rightarrow> (string \<rightharpoonup> bool) \<Rightarrow> 'x \<Rightarrow> auth_result \<times> 'x" where
  "authenticate_spec limiter limiter_key credential_authenticator
       request username password realm return_data x =
     (case limiter (limiter_key username realm) x of
        ((limited, retry_after_seconds), x') \<Rightarrow>
          if limited then (Raised (RateLimited retry_after_seconds), x')
          else credential_authenticator request username password realm return_data x')"


section \<open>A deployment for the examples\<close>

text \<open>
  Three realms: \<open>acme\<close> and \<open>other\<close> are active, \<open>closed\<close> is deactivated. Bob is active in
  \<open>acme\<close>, Carol is deactivated in \<open>acme\<close>, Erin belongs to \<open>closed\<close>, and
  \<open>dummy@example.com\<close> is a mirror-dummy account of \<open>acme\<close>. The state of the collaborators
  is the number of attempts the rate limiter has recorded; it reports limited from the sixth
  attempt on.
\<close>

definition acme :: realm where
  "acme = \<lparr> string_id = ''acme'', deactivated = False,
            uri = ''https://acme.example.com'', realm_name = ''Acme'' \<rparr>"

definition other :: realm where
  "other = \<lparr> string_id = ''other'', deactivated = False,
             uri = ''https://other.example.com'', realm_name = ''Other'' \<rparr>"

definition closed :: realm where
  "closed = \<lparr> string_id = ''closed'', deactivated = True,
              uri = ''https://closed.example.com'', realm_name = ''Closed'' \<rparr>"

definition bob :: user_profile where
  "bob = \<lparr> user_id = 7, delivery_email = ''bob@example.com'', is_active = True,
           user_realm = acme \<rparr>"

definition carol :: user_profile where
  "carol = \<lparr> user_id = 8, delivery_email = ''carol@example.com'', is_active = False,
             user_realm = acme \<rparr>"

definition example_authenticate ::
    "http_request \<Rightarrow> string \<Rightarrow> string \<Rightarrow> realm \<Rightarrow> (string \<rightharpoonup> bool) \<Rightarrow> nat \<Rightarrow> auth_result \<times> nat" where
  "example_authenticate request username password realm return_data n =
     (if 5 \<le> n then (Raised (RateLimited (Some (25 / 2))), Suc n)
      else if username = ''bob@example.com'' then
        (if string_id realm = ''acme'' then
           (if password = ''P@ssw0rd1'' then (Returned (Some bob) return_data, Suc n)
            else (Returned None return_data, Suc n))
         else (Returned None (return_data(''invalid_subdomain'' \<mapsto> True)), Suc n))
      else if username = ''carol@example.com'' \<and> string_id realm = ''acme'' then
        (Returned None (return_data(''inactive_user'' \<mapsto> True)), Suc n)
      else if username = ''dummy@example.com'' \<and> string_id realm = ''acme'' then
        (Returned None
           (return_data(''is_mirror_dummy'' \<mapsto> True, ''inactive_user'' \<mapsto> True)), Suc n)
      else if username = ''erin@example.com'' \<and> string_id realm = ''closed'' then
        (Returned None (return_data(''inactive_realm'' \<mapsto> True)), Suc n)
      else (Returned None return_data, Suc n))"

definition example_site :: "nat env" where
  "example_site =
     \<lparr> get_subdomain = request_host,
       get_realm = (\<lambda>s. if s = ''acme'' then Some acme
                        else if s = ''other'' then Some other
                        else if s = ''closed'' then Some closed else None),
       email_auth_enabled = (\<lambda>r. True),
       email_belongs_to_ldap = (\<lambda>r e. False),
       RATE_LIMITING = True,
       RATE_LIMITING_RULES = (\<lambda>k. [(5, 3600)]),
       rate_limit = (\<lambda>k rs n. ((5 \<le> n, 60), Suc n)),
       get_user_by_delivery_email =
         (\<lambda>e r. if e = ''bob@example.com'' \<and> string_id r = ''acme'' then Some bob
                 else if e = ''carol@example.com'' \<and> string_id r = ''acme'' then Some carol
                 else None),
       active_accounts_iexact = (\<lambda>e. if e = ''bob@example.com'' then [bob] else []),
       urlsafe_base64_encode = (\<lambda>s. s),
       reverse = (\<lambda>view kwargs. ''/accounts/password/reset/'' @ concat (map snd kwargs)),
       security_email_from_name_user = (\<lambda>u. ''Zulip Account Security''),
       security_email_from_name_language = (\<lambda>l. ''Zulip Account Security''),
       tokenized_no_reply_address = ''noreply-token@example.com'',
       authenticate = example_authenticate,
       confirm_login_allowed = (\<lambda>u. None),
       invalid_login_message = ''Please enter a correct email and password.'',
       username_verbose_name = ''email'' \<rparr>"

definition start :: "nat world" where
  "start = \<lparr> logs = [], outbox = [], ext = 0 \<rparr>"

definition login_form :: "string \<Rightarrow> string \<Rightarrow> string \<Rightarrow> auth_form" where
  "login_form username password host =
     \<lparr> cleaned_data = [''username'' \<mapsto> username, ''password'' \<mapsto> password],
       form_request = \<lparr> request_host = host, LANGUAGE_CODE = ''de'' \<rparr>,
       user_cache = None \<rparr>"

definition reset_form :: "string \<Rightarrow> form" where
  "reset_form email = \<lparr> cleaned_data = [''email'' \<mapsto> email] \<rparr>"

definition reset_request :: "string \<Rightarrow> http_request" where
  "reset_request host = \<lparr> request_host = host, LANGUAGE_CODE = ''de'' \<rparr>"


section \<open>Lemmas on the Python values\<close>

lemma py_index_first: "xs \<noteq> [] \<Longrightarrow> py_index xs 0 = Inr (hd xs)"
  by (cases xs) (simp_all add: py_index_def)

lemma py_index_final: "xs \<noteq> [] \<Longrightarrow> py_index xs (- 1) = Inr (last xs)"
proof -
  assume ne: "xs \<noteq> []"
  then have pos: "1 \<le> int (length xs)"
    by (cases xs) simp_all
  have idx: "nat (int (length xs) + - 1) = length xs - 1"
    by simp
  have "py_index xs (- 1) = Inr (xs ! (length xs - 1))"
    unfolding py_index_def using pos idx by simp
  with ne show ?thesis
    by (simp add: last_conv_nth)
qed

lemma py_index_empty: "py_index [] i = Inl IndexError"
  by (simp add: py_index_def)


section \<open>Claims on \<open>check_subdomain_available\<close>\<close>

lemma check_subdomain_available_nonempty:
  assumes "subdomain \<noteq> SUBDOMAIN_FOR_ROOT_DOMAIN env" and "subdomain \<noteq> []"
  shows "check_subdomain_available env subdomain allow =
     (if hd subdomain = CHR ''-'' \<or> last subdomain = CHR ''-'' then
        Inl (validation_error (error_strings env extremal_dash))
      else if \<not> re_match_subdomain subdomain then
        Inl (validation_error (error_strings env bad_character))
      else if length subdomain < 3 then
        Inl (validation_error (error_strings env too_short))
      else if realm_exists env subdomain \<or> (is_reserved_subdomain env subdomain \<and> \<not> allow) then
        Inl (validation_error (error_strings env unavailable))
      else Inr ())"
  using assms
  by (auto simp add: check_subdomain_available_def py_index_first py_index_final)

text \<open>
  C5, as amended. For every subdomain of length less than 3 that is not empty and is not the
  root-domain sentinel, \<open>check_subdomain_available\<close> raises the extremal-dash error when
  the subdomain starts or ends with a dash, otherwise the bad-character error when it does
  not match \<open>^[a-z0-9-]*$\<close>, and otherwise the too-short error, whether or not the subdomain
  exists or is reserved: the length check comes after the dash and character checks and
  before the existence and reserved-word checks.
\<close>

theorem check_subdomain_available_short:
  assumes "length subdomain < 3"
    and "subdomain \<noteq> SUBDOMAIN_FOR_ROOT_DOMAIN env"
    and "subdomain \<noteq> []"
  shows "check_subdomain_available env subdomain allow =
     (if hd subdomain = CHR ''-'' \<or> last subdomain = CHR ''-'' then
        Inl (validation_error (error_strings env extremal_dash))
      else if \<not> re_match_subdomain subdomain then
        Inl (validation_error (error_strings env bad_character))
      else Inl (validation_error (error_strings env too_short)))"
  using assms by (simp add: check_subdomain_available_nonempty)

text \<open>C5, an instance: \<open>ab\<close> passes the dash and character checks and is too short.\<close>

theorem check_subdomain_available_short_witness:
  "length ''ab'' < 3 \<and> ''ab'' \<noteq> SUBDOMAIN_FOR_ROOT_DOMAIN example_realms \<and> ''ab'' \<noteq> []
   \<and> check_subdomain_available example_realms ''ab'' False =
       Inl (validation_error ''Subdomain needs to have length 3 or greater.'')"
  using check_subdomain_available_short [of "''ab''" example_realms False]
  by (simp add: example_realms_def re_match_subdomain_def subdomain_char_def)

text \<open>
  C5 as stated fails: \<open>-a\<close> and \<open>A\<close> are shorter than 3 and are not the sentinel, and the
  errors raised are the extremal-dash and the bad-character error, not the too-short error.
\<close>

theorem too_short_first_counterexample:
  "length ''-a'' < 3 \<and> ''-a'' \<noteq> SUBDOMAIN_FOR_ROOT_DOMAIN example_realms
   \<and> check_subdomain_available example_realms ''-a'' False =
       Inl (validation_error ''Subdomain cannot start or end with a '-'.'')
   \<and> check_subdomain_available example_realms ''-a'' False \<noteq>
       Inl (validation_error (error_strings example_realms too_short))
   \<and> length ''A'' < 3 \<and> ''A'' \<noteq> SUBDOMAIN_FOR_ROOT_DOMAIN example_realms
   \<and> check_subdomain_available example_realms ''A'' False =
       Inl (validation_error ''Subdomain can only have lowercase letters, numbers, and '-'s.'')
   \<and> check_subdomain_available example_realms ''A'' False \<noteq>
       Inl (validation_error (error_strings example_realms too_short))"
  by (simp add: check_subdomain_available_def py_index_def example_realms_def
      re_match_subdomain_def subdomain_char_def validation_error_def)

text \<open>
  C9. For every subdomain that is not empty or equals the root-domain sentinel,
  \<open>check_subdomain_available\<close> returns or raises \<open>ValidationError\<close> with one of its four
  messages; for the empty subdomain, when the sentinel is not empty, \<open>subdomain[0]\<close> raises
  \<open>IndexError\<close>.
\<close>

theorem check_subdomain_available_total:
  "(subdomain \<noteq> [] \<or> subdomain = SUBDOMAIN_FOR_ROOT_DOMAIN env \<longrightarrow>
      check_subdomain_available env subdomain allow \<in>
        {Inr (),
         Inl (validation_error (error_strings env too_short)),
         Inl (validation_error (error_strings env extremal_dash)),
         Inl (validation_error (error_strings env bad_character)),
         Inl (validation_error (error_strings env unavailable))})
   \<and> (subdomain = [] \<and> subdomain \<noteq> SUBDOMAIN_FOR_ROOT_DOMAIN env \<longrightarrow>
        check_subdomain_available env subdomain allow = Inl IndexError)"
proof (intro conjI impI)
  assume ok: "subdomain \<noteq> [] \<or> subdomain = SUBDOMAIN_FOR_ROOT_DOMAIN env"
  show "check_subdomain_available env subdomain allow \<in>
        {Inr (),
         Inl (validation_error (error_strings env too_short)),
         Inl (validation_error (error_strings env extremal_dash)),
         Inl (validation_error (error_strings env bad_character)),
         Inl (validation_error (error_strings env unavailable))}"
  proof (cases "subdomain = SUBDOMAIN_FOR_ROOT_DOMAIN env")
    case True
    then show ?thesis by (simp add: check_subdomain_available_def)
  next
    case False
    with ok have "subdomain \<noteq> []" by simp
    with False show ?thesis
      by (simp add: check_subdomain_available_nonempty)
  qed
next
  assume "subdomain = [] \<and> subdomain \<noteq> SUBDOMAIN_FOR_ROOT_DOMAIN env"
  then have "subdomain = []" and "[] \<noteq> SUBDOMAIN_FOR_ROOT_DOMAIN env"
    by auto
  then show "check_subdomain_available env subdomain allow = Inl IndexError"
    by (simp add: check_subdomain_available_def py_index_empty)
qed

text \<open>
  C9, instances: with the sentinel \<open>root\<close>, \<open>abc\<close> is accepted and the empty subdomain raises
  \<open>IndexError\<close>; with the empty sentinel the empty subdomain is the root domain.
\<close>

theorem check_subdomain_available_total_witness:
  "''abc'' \<noteq> []
   \<and> check_subdomain_available example_realms_root ''abc'' False = Inr ()
   \<and> [] \<noteq> SUBDOMAIN_FOR_ROOT_DOMAIN example_realms_root
   \<and> check_subdomain_available example_realms_root [] False = Inl IndexError
   \<and> check_subdomain_available example_realms [] False = Inr ()"
  using check_subdomain_available_total [of "[]" example_realms_root False]
  by (simp add: example_realms_root_def example_realms_def check_subdomain_available_def
      py_index_def re_match_subdomain_def subdomain_char_def)


section \<open>Lemmas on splitting and stripping\<close>

lemma str_split_not_Nil: "str_split sep s \<noteq> []"
  by (induction s) (auto split: list.splits)

lemma length_str_split: "length (str_split sep s) = Suc (count_list s sep)"
  by (induction s) (auto split: list.splits simp: str_split_not_Nil)

lemma str_join_split: "str_join sep (str_split sep s) = s"
proof (induction s)
  case Nil
  then show ?case by simp
next
  case (Cons c cs)
  obtain piece pieces where sp: "str_split sep cs = piece # pieces"
    using str_split_not_Nil [of sep cs] by (cases "str_split sep cs") auto
  show ?case
  proof (cases "c = sep")
    case True
    with Cons sp show ?thesis by simp
  next
    case False
    have "str_join sep ((c # piece) # pieces) = c # str_join sep (piece # pieces)"
      by (cases pieces) simp_all
    with False Cons sp show ?thesis by simp
  qed
qed

lemma str_split_no_sep: "piece \<in> set (str_split sep s) \<Longrightarrow> sep \<notin> set piece"
proof (induction s arbitrary: piece)
  case Nil
  then show ?case by simp
next
  case (Cons c cs)
  then show ?case
    by (cases "str_split sep cs") (auto split: if_splits)
qed

lemma strip_decompose:
  "\<exists>l r. s = l @ strip s @ r \<and> list_all isspace l \<and> list_all isspace r"
proof -
  define t where "t = dropWhile isspace s"
  define l where "l = takeWhile isspace s"
  define r where "r = rev (takeWhile isspace (rev t))"
  have "rev (dropWhile isspace (rev t)) @ rev (takeWhile isspace (rev t)) =
        rev (takeWhile isspace (rev t) @ dropWhile isspace (rev t))"
    by (simp only: rev_append)
  also have "\<dots> = t"
    by (simp only: takeWhile_dropWhile_id rev_rev_ident)
  finally have t_eq: "t = strip s @ r"
    by (simp only: strip_def r_def t_def)
  have "s = l @ t"
    by (simp add: l_def t_def)
  with t_eq have "s = l @ strip s @ r" by simp
  moreover have "list_all isspace l"
    unfolding l_def list_all_iff by (auto dest: set_takeWhileD)
  moreover have "list_all isspace r"
    unfolding r_def list_all_iff by (auto dest: set_takeWhileD)
  ultimately show ?thesis by blast
qed

lemma strip_ends:
  "strip s = [] \<or> (\<not> isspace (hd (strip s)) \<and> \<not> isspace (last (strip s)))"
proof (cases "strip s = []")
  case True
  then show ?thesis by simp
next
  case False
  define t where "t = dropWhile isspace s"
  define u where "u = dropWhile isspace (rev t)"
  have su: "strip s = rev u"
    by (simp add: strip_def u_def t_def)
  with False have u_ne: "u \<noteq> []" by simp
  then have "\<not> isspace (hd u)"
    unfolding u_def by (rule hd_dropWhile)
  with u_ne su have last_ok: "\<not> isspace (last (strip s))"
    by (simp add: last_rev)
  from u_ne have rt_ne: "rev t \<noteq> []"
    unfolding u_def by auto
  have "rev t = takeWhile isspace (rev t) @ u"
    by (simp add: u_def)
  with u_ne have "last (rev t) = last u"
    by (metis last_appendR)
  with rt_ne have "hd t = last u"
    by (simp add: last_rev)
  moreover from rt_ne have "t \<noteq> []" by simp
  then have "\<not> isspace (hd t)"
    unfolding t_def by (rule hd_dropWhile)
  ultimately have "\<not> isspace (hd (strip s))"
    using su u_ne by (simp add: hd_rev)
  with last_ok show ?thesis by simp
qed

text \<open>
  C10. \<open>to_python\<close> maps the empty string to the empty list; any other input is split at
  its commas (joining the pieces with commas gives the input back, no piece holds a comma,
  and there is one more piece than commas) and each piece is stripped (what is removed at
  both ends is whitespace, and what remains neither starts nor ends with whitespace).
  \<open>clean_emails\<close> returns the parsed list if and only if it has at most 10 entries, and
  raises \<open>ValidationError\<close> for 11 or more.
\<close>

theorem find_my_team_bounds:
  "to_python [] = []
   \<and> (emails \<noteq> [] \<longrightarrow>
        to_python emails = map strip (str_split CHR '','' emails)
        \<and> str_join CHR '','' (str_split CHR '','' emails) = emails
        \<and> (\<forall>piece \<in> set (str_split CHR '','' emails). CHR '','' \<notin> set piece)
        \<and> length (to_python emails) = Suc (count_list emails CHR '',''))
   \<and> (\<exists>l r. piece = l @ strip piece @ r \<and> list_all isspace l \<and> list_all isspace r)
   \<and> (strip piece = [] \<or> (\<not> isspace (hd (strip piece)) \<and> \<not> isspace (last (strip piece))))
   \<and> (clean_emails translate [''emails'' \<mapsto> parsed] = Inr parsed) = (length parsed \<le> 10)
   \<and> (11 \<le> length parsed \<longrightarrow>
        clean_emails translate [''emails'' \<mapsto> parsed] =
          Inl (validation_error (translate ''Please enter at most 10 emails.'')))"
proof -
  have a: "to_python [] = []"
    by (simp add: to_python_def)
  have b: "emails \<noteq> [] \<longrightarrow>
        to_python emails = map strip (str_split CHR '','' emails)
        \<and> str_join CHR '','' (str_split CHR '','' emails) = emails
        \<and> (\<forall>piece \<in> set (str_split CHR '','' emails). CHR '','' \<notin> set piece)
        \<and> length (to_python emails) = Suc (count_list emails CHR '','')"
    by (simp add: to_python_def str_join_split str_split_no_sep length_str_split)
  have c: "(clean_emails translate [''emails'' \<mapsto> parsed] = Inr parsed) = (length parsed \<le> 10)"
    by (auto simp add: clean_emails_def)
  have d: "11 \<le> length parsed \<longrightarrow>
        clean_emails translate [''emails'' \<mapsto> parsed] =
          Inl (validation_error (translate ''Please enter at most 10 emails.''))"
    by (simp add: clean_emails_def)
  from a b c d strip_decompose [of piece] strip_ends [of piece] show ?thesis
    by blast
qed

text \<open>C10, instances: two addresses with blanks around them; ten and eleven entries.\<close>

theorem find_my_team_bounds_witness:
  "''a@x.com, b@y.org '' \<noteq> []
   \<and> to_python ''a@x.com, b@y.org '' = [''a@x.com'', ''b@y.org'']
   \<and> clean_emails (\<lambda>s. s) [''emails'' \<mapsto> replicate 10 ''a@x.com''] = Inr (replicate 10 ''a@x.com'')
   \<and> clean_emails (\<lambda>s. s) [''emails'' \<mapsto> replicate 11 ''a@x.com''] =
        Inl (validation_error ''Please enter at most 10 emails.'')"
proof -
  have "to_python ''a@x.com, b@y.org '' = [''a@x.com'', ''b@y.org'']"
    using find_my_team_bounds [of "''a@x.com, b@y.org ''"]
    by (simp add: strip_def isspace_def)
  moreover have "clean_emails (\<lambda>s. s) [''emails'' \<mapsto> replicate 10 ''a@x.com''] = Inr (replicate 10 ''a@x.com'')"
    using find_my_team_bounds [of _ _ "\<lambda>s. s" "replicate 10 ''a@x.com''"] by simp
  moreover have "clean_emails (\<lambda>s. s) [''emails'' \<mapsto> replicate 11 ''a@x.com''] =
        Inl (validation_error ''Please enter at most 10 emails.'')"
    using find_my_team_bounds [of _ _ "\<lambda>s. s" "replicate 11 ''a@x.com''"] by simp
  ultimately show ?thesis by simp
qed


section \<open>Claims on \<open>OurAuthenticationForm.clean\<close>\<close>

lemma format_rate_limited:
  "format1 AUTHENTICATION_RATE_LIMITED_ERROR a =
     ''You're making too many attempts to sign in. Try again in '' @ a
     @ '' seconds or contact your organization administrator for help.''"
  by (simp add: AUTHENTICATION_RATE_LIMITED_ERROR_def)

lemma format_wrong_subdomain:
  "percent_format ''User %s attempted password login to wrong subdomain %s'' [a, b] =
     ''User '' @ a @ '' attempted password login to wrong subdomain '' @ b"
  by simp

lemma clean_raised_rate_limited:
  assumes "cleaned_data self ''username'' = Some username"
    and "cleaned_data self ''password'' = Some password"
    and "password \<noteq> []"
    and "get_realm env (get_subdomain env (form_request self)) = Some realm"
    and "authenticate env (form_request self) username password realm Map.empty (ext w) =
           (Raised (RateLimited (Some secs)), x)"
  shows "clean env self w =
     (Inl (validation_error
            (''You're making too many attempts to sign in. Try again in ''
             @ str_of_int (py_int secs)
             @ '' seconds or contact your organization administrator for help.'')),
      self, w \<lparr> ext := x \<rparr>)"
  using assms by (simp add: clean_def format_rate_limited)

lemma clean_returned:
  assumes "cleaned_data self ''username'' = Some username"
    and "cleaned_data self ''password'' = Some password"
    and "password \<noteq> []"
    and "get_realm env (get_subdomain env (form_request self)) = Some realm"
    and "authenticate env (form_request self) username password realm Map.empty (ext w) =
           (Returned user return_data, x)"
  shows "clean env self w =
     (if flag return_data ''inactive_realm'' then
        (Inl (AssertionError ''Programming error: inactive realm in authentication form''),
         self \<lparr> user_cache := user \<rparr>, w \<lparr> ext := x \<rparr>)
      else if flag return_data ''password_reset_needed'' then
        (Inl (validation_error PASSWORD_RESET_NEEDED_ERROR),
         self \<lparr> user_cache := user \<rparr>, w \<lparr> ext := x \<rparr>)
      else if flag return_data ''inactive_user'' \<and> \<not> flag return_data ''is_mirror_dummy'' then
        (Inl (validation_error DEACTIVATED_ACCOUNT_ERROR),
         self \<lparr> user_cache := user \<rparr>, w \<lparr> ext := x \<rparr>)
      else if flag return_data ''invalid_subdomain'' then
        (Inl (validation_error WRONG_SUBDOMAIN_ERROR), self \<lparr> user_cache := user \<rparr>,
         logging_warning ''User %s attempted password login to wrong subdomain %s''
           [username, get_subdomain env (form_request self)] (w \<lparr> ext := x \<rparr>))
      else
        (case user of
           None \<Rightarrow>
             (Inl (ValidationError (invalid_login_message env) (Some ''invalid_login'')
                    [(''username'', username_verbose_name env)]),
              self \<lparr> user_cache := user \<rparr>, w \<lparr> ext := x \<rparr>)
         | Some u \<Rightarrow>
             (case confirm_login_allowed env u of
                Some e \<Rightarrow> (Inl e, self \<lparr> user_cache := user \<rparr>, w \<lparr> ext := x \<rparr>)
              | None \<Rightarrow> (Inr (cleaned_data self), self \<lparr> user_cache := user \<rparr>, w \<lparr> ext := x \<rparr>))))"
  using assms by (simp add: clean_def Let_def mark_safe_def split: option.splits)


text \<open>
  C1. For a login attempt with a username, a password that is not empty and a request whose
  realm exists: when \<open>authenticate\<close> raises \<open>RateLimited\<close> with its seconds to retry, \<open>clean\<close>
  raises the \<open>ValidationError\<close> whose message holds the integer seconds, assigns no
  \<open>user_cache\<close>, logs nothing, and runs none of its later checks, whatever the account's
  state. With the backend of the specification in the place of \<open>authenticate\<close>, a limiter
  that reports limited gives the same outcome for every credential authenticator, and the
  state of the collaborators is the one the limiter left: no credential is compared.
\<close>

theorem clean_rate_limited_first:
  assumes "cleaned_data self ''username'' = Some username"
    and "cleaned_data self ''password'' = Some password"
    and "password \<noteq> []"
    and "get_realm env (get_subdomain env (form_request self)) = Some realm"
  shows "(authenticate env (form_request self) username password realm Map.empty (ext w) =
            (Raised (RateLimited (Some secs)), x) \<longrightarrow>
          clean env self w =
            (Inl (validation_error
                   (''You're making too many attempts to sign in. Try again in ''
                    @ str_of_int (py_int secs)
                    @ '' seconds or contact your organization administrator for help.'')),
             self, w \<lparr> ext := x \<rparr>))
       \<and> (limiter (limiter_key username realm) (ext w) = ((True, Some secs), x) \<longrightarrow>
          clean (env \<lparr> authenticate :=
                   authenticate_spec limiter limiter_key credential_authenticator \<rparr>) self w =
            (Inl (validation_error
                   (''You're making too many attempts to sign in. Try again in ''
                    @ str_of_int (py_int secs)
                    @ '' seconds or contact your organization administrator for help.'')),
             self, w \<lparr> ext := x \<rparr>))"
proof (intro conjI impI)
  assume "authenticate env (form_request self) username password realm Map.empty (ext w) =
            (Raised (RateLimited (Some secs)), x)"
  with assms show "clean env self w =
            (Inl (validation_error
                   (''You're making too many attempts to sign in. Try again in ''
                    @ str_of_int (py_int secs)
                    @ '' seconds or contact your organization administrator for help.'')),
             self, w \<lparr> ext := x \<rparr>)"
    by (rule clean_raised_rate_limited)
next
  let ?env = "env \<lparr> authenticate :=
                   authenticate_spec limiter limiter_key credential_authenticator \<rparr>"
  assume "limiter (limiter_key username realm) (ext w) = ((True, Some secs), x)"
  then have "authenticate ?env (form_request self) username password realm Map.empty (ext w) =
            (Raised (RateLimited (Some secs)), x)"
    by (simp add: authenticate_spec_def)
  moreover have "get_realm ?env (get_subdomain ?env (form_request self)) = Some realm"
    using assms(4) by simp
  ultimately have "clean ?env self w =
            (Inl (validation_error
                   (''You're making too many attempts to sign in. Try again in ''
                    @ str_of_int (py_int secs)
                    @ '' seconds or contact your organization administrator for help.'')),
             self, w \<lparr> ext := x \<rparr>)"
    using assms(1-3) by (intro clean_raised_rate_limited)
  then show "clean ?env self w =
            (Inl (validation_error
                   (''You're making too many attempts to sign in. Try again in ''
                    @ str_of_int (py_int secs)
                    @ '' seconds or contact your organization administrator for help.'')),
             self, w \<lparr> ext := x \<rparr>)" .
qed

lemma example_login_form:
  "cleaned_data (login_form u p h) ''username'' = Some u"
  "cleaned_data (login_form u p h) ''password'' = Some p"
  "form_request (login_form u p h) = \<lparr> request_host = h, LANGUAGE_CODE = ''de'' \<rparr>"
  by (simp_all add: login_form_def)

lemma example_site_realm:
  "get_realm example_site (get_subdomain example_site \<lparr> request_host = ''acme'', LANGUAGE_CODE = l \<rparr>)
     = Some acme"
  "get_realm example_site (get_subdomain example_site \<lparr> request_host = ''other'', LANGUAGE_CODE = l \<rparr>)
     = Some other"
  "get_realm example_site (get_subdomain example_site \<lparr> request_host = ''closed'', LANGUAGE_CODE = l \<rparr>)
     = Some closed"
  by (simp_all add: example_site_def)

lemma str_of_int_12: "str_of_int (py_int (25 / 2)) = ''12''"
  by (simp add: str_of_int_def py_int_def digits10.simps)

text \<open>
  C1, an instance: the sixth attempt for Bob is limited with 12.5 seconds to retry, and the
  message says 12 seconds.
\<close>

theorem clean_rate_limited_first_witness:
  "clean example_site (login_form ''bob@example.com'' ''P@ssw0rd1'' ''acme'') (start \<lparr> ext := 5 \<rparr>) =
     (Inl (validation_error
            ''You're making too many attempts to sign in. Try again in 12 seconds or contact your organization administrator for help.''),
      login_form ''bob@example.com'' ''P@ssw0rd1'' ''acme'', start \<lparr> ext := 6 \<rparr>)
   \<and> clean (example_site \<lparr> authenticate :=
               authenticate_spec (\<lambda>k n. ((5 \<le> n, Some (25 / 2)), Suc n))
                 (\<lambda>u r. u @ '':'' @ string_id r) example_authenticate \<rparr>)
        (login_form ''bob@example.com'' ''P@ssw0rd1'' ''acme'') (start \<lparr> ext := 5 \<rparr>) =
     (Inl (validation_error
            ''You're making too many attempts to sign in. Try again in 12 seconds or contact your organization administrator for help.''),
      login_form ''bob@example.com'' ''P@ssw0rd1'' ''acme'', start \<lparr> ext := 6 \<rparr>)"
proof -
  let ?self = "login_form ''bob@example.com'' ''P@ssw0rd1'' ''acme''"
  let ?w = "start \<lparr> ext := 5 \<rparr>"
  let ?limiter = "\<lambda>(k :: string) n. ((5 \<le> n, Some (25 / 2 :: real)), Suc n)"
  have realm: "get_realm example_site (get_subdomain example_site (form_request ?self)) = Some acme"
    by (simp add: example_login_form example_site_realm)
  have raised: "authenticate example_site (form_request ?self) ''bob@example.com'' ''P@ssw0rd1''
                  acme Map.empty (ext ?w) = (Raised (RateLimited (Some (25 / 2))), 6)"
    by (simp add: example_site_def example_authenticate_def start_def)
  have limited: "?limiter ((\<lambda>u r. u @ '':'' @ string_id r) ''bob@example.com'' acme) (ext ?w) =
                  ((True, Some (25 / 2)), 6)"
    by (simp add: start_def)
  have pw: "''P@ssw0rd1'' \<noteq> []" by simp
  note both = clean_rate_limited_first
    [where w = ?w and secs = "25 / 2" and x = 6 and limiter = ?limiter
       and limiter_key = "\<lambda>u r. u @ '':'' @ string_id r"
       and credential_authenticator = example_authenticate,
     OF example_login_form(1) example_login_form(2) pw realm]
  from both raised limited show ?thesis
    by (simp add: str_of_int_12 start_def)
qed

text \<open>
  C2. When \<open>authenticate\<close> returns with the \<open>inactive_realm\<close> flag set, \<open>clean\<close> raises
  \<open>AssertionError\<close> and never a \<open>ValidationError\<close>, whatever the other flags and the
  returned user are: the check comes before those of \<open>password_reset_needed\<close>,
  \<open>inactive_user\<close> and \<open>invalid_subdomain\<close>, and no warning is logged.
\<close>

theorem clean_inactive_realm_fatal:
  assumes "cleaned_data self ''username'' = Some username"
    and "cleaned_data self ''password'' = Some password"
    and "password \<noteq> []"
    and "get_realm env (get_subdomain env (form_request self)) = Some realm"
    and "authenticate env (form_request self) username password realm Map.empty (ext w) =
           (Returned user return_data, x)"
    and "flag return_data ''inactive_realm''"
  shows "clean env self w =
           (Inl (AssertionError ''Programming error: inactive realm in authentication form''),
            self \<lparr> user_cache := user \<rparr>, w \<lparr> ext := x \<rparr>)
         \<and> (\<forall>message code params. fst (clean env self w) \<noteq> Inl (ValidationError message code params))"
  using assms by (simp add: clean_returned)

text \<open>
  C2, an instance: a backend that sets \<open>inactive_realm\<close>, \<open>password_reset_needed\<close>,
  \<open>inactive_user\<close> and \<open>invalid_subdomain\<close> together.
\<close>

theorem clean_inactive_realm_fatal_witness:
  "clean (example_site \<lparr> authenticate := (\<lambda>request username password realm return_data n.
              (Returned None
                 (return_data(''inactive_realm'' \<mapsto> True, ''password_reset_needed'' \<mapsto> True,
                    ''inactive_user'' \<mapsto> True, ''invalid_subdomain'' \<mapsto> True)), Suc n)) \<rparr>)
         (login_form ''erin@example.com'' ''secret'' ''closed'') start =
     (Inl (AssertionError ''Programming error: inactive realm in authentication form''),
      login_form ''erin@example.com'' ''secret'' ''closed'', start \<lparr> ext := 1 \<rparr>)"
proof -
  let ?auth = "\<lambda>(request :: http_request) (username :: string) (password :: string) (realm :: realm)
                  (return_data :: string \<rightharpoonup> bool) (n :: nat).
              (Returned None
                 (return_data(''inactive_realm'' \<mapsto> True, ''password_reset_needed'' \<mapsto> True,
                    ''inactive_user'' \<mapsto> True, ''invalid_subdomain'' \<mapsto> True)), Suc n)"
  let ?env = "example_site \<lparr> authenticate := ?auth \<rparr>"
  let ?self = "login_form ''erin@example.com'' ''secret'' ''closed''"
  let ?rd = "[''inactive_realm'' \<mapsto> True, ''password_reset_needed'' \<mapsto> True,
              ''inactive_user'' \<mapsto> True, ''invalid_subdomain'' \<mapsto> True]"
  have realm: "get_realm ?env (get_subdomain ?env (form_request ?self)) = Some closed"
    by (simp add: example_login_form example_site_def)
  have returned: "authenticate ?env (form_request ?self) ''erin@example.com'' ''secret'' closed
                    Map.empty (ext start) = (Returned None ?rd, 1)"
    by (simp add: start_def)
  have flagged: "flag ?rd ''inactive_realm''"
    by (simp add: flag_def)
  have pw: "''secret'' \<noteq> []" by simp
  from clean_inactive_realm_fatal
    [OF example_login_form(1) example_login_form(2) pw realm returned flagged]
  show ?thesis
    by (simp add: login_form_def)
qed

text \<open>
  C3. When \<open>authenticate\<close> returns with the \<open>inactive_user\<close> flag set and the two earlier
  checks (\<open>inactive_realm\<close>, \<open>password_reset_needed\<close>) do not apply: if \<open>is_mirror_dummy\<close> is
  not set, \<open>clean\<close> raises the deactivated-account error; if it is set, no wrong-subdomain
  flag is set and no user is returned, \<open>clean\<close> raises the \<open>invalid_login\<close> error, and its
  whole result is that of a backend which found no account at all.
\<close>

theorem clean_inactive_user:
  assumes "cleaned_data self ''username'' = Some username"
    and "cleaned_data self ''password'' = Some password"
    and "password \<noteq> []"
    and "get_realm env (get_subdomain env (form_request self)) = Some realm"
    and "authenticate env (form_request self) username password realm Map.empty (ext w) =
           (Returned user return_data, x)"
    and "flag return_data ''inactive_user''"
    and "\<not> flag return_data ''inactive_realm''"
    and "\<not> flag return_data ''password_reset_needed''"
  shows "(\<not> flag return_data ''is_mirror_dummy'' \<longrightarrow>
            clean env self w =
              (Inl (validation_error DEACTIVATED_ACCOUNT_ERROR),
               self \<lparr> user_cache := user \<rparr>, w \<lparr> ext := x \<rparr>))
       \<and> (flag return_data ''is_mirror_dummy'' \<and> \<not> flag return_data ''invalid_subdomain''
            \<and> user = None \<longrightarrow>
            clean env self w =
              (Inl (ValidationError (invalid_login_message env) (Some ''invalid_login'')
                     [(''username'', username_verbose_name env)]),
               self \<lparr> user_cache := None \<rparr>, w \<lparr> ext := x \<rparr>)
            \<and> clean env self w =
                clean (env \<lparr> authenticate :=
                         (\<lambda>request username password realm return_data x0.
                            (Returned None return_data, x)) \<rparr>) self w)"
proof (intro conjI impI)
  assume "\<not> flag return_data ''is_mirror_dummy''"
  with assms show "clean env self w =
              (Inl (validation_error DEACTIVATED_ACCOUNT_ERROR),
               self \<lparr> user_cache := user \<rparr>, w \<lparr> ext := x \<rparr>)"
    by (simp add: clean_returned)
next
  assume dummy: "flag return_data ''is_mirror_dummy'' \<and> \<not> flag return_data ''invalid_subdomain''
            \<and> user = None"
  with assms show invalid: "clean env self w =
              (Inl (ValidationError (invalid_login_message env) (Some ''invalid_login'')
                     [(''username'', username_verbose_name env)]),
               self \<lparr> user_cache := None \<rparr>, w \<lparr> ext := x \<rparr>)"
    by (simp add: clean_returned)
  let ?env = "env \<lparr> authenticate :=
                (\<lambda>request username password realm return_data x0.
                   (Returned None return_data, x)) \<rparr>"
  have "authenticate ?env (form_request self) username password realm Map.empty (ext w) =
          (Returned None Map.empty, x)"
    by simp
  moreover have "get_realm ?env (get_subdomain ?env (form_request self)) = Some realm"
    using assms(4) by simp
  ultimately have "clean ?env self w =
              (Inl (ValidationError (invalid_login_message env) (Some ''invalid_login'')
                     [(''username'', username_verbose_name env)]),
               self \<lparr> user_cache := None \<rparr>, w \<lparr> ext := x \<rparr>)"
    using assms(1-3) by (simp add: clean_returned flag_def)
  with invalid show "clean env self w = clean ?env self w"
    by simp
qed

text \<open>
  C3, instances: Carol is deactivated; the mirror-dummy account gets the answer that an
  address without any account gets.
\<close>

theorem clean_inactive_user_witness:
  "clean example_site (login_form ''carol@example.com'' ''secret'' ''acme'') start =
     (Inl (validation_error DEACTIVATED_ACCOUNT_ERROR),
      login_form ''carol@example.com'' ''secret'' ''acme'', start \<lparr> ext := 1 \<rparr>)
   \<and> clean example_site (login_form ''dummy@example.com'' ''secret'' ''acme'') start =
     (Inl (ValidationError ''Please enter a correct email and password.'' (Some ''invalid_login'')
            [(''username'', ''email'')]),
      login_form ''dummy@example.com'' ''secret'' ''acme'', start \<lparr> ext := 1 \<rparr>)
   \<and> fst (clean example_site (login_form ''dummy@example.com'' ''secret'' ''acme'') start) =
     fst (clean example_site (login_form ''nobody@example.com'' ''secret'' ''acme'') start)
   \<and> snd (snd (clean example_site (login_form ''dummy@example.com'' ''secret'' ''acme'') start)) =
     snd (snd (clean example_site (login_form ''nobody@example.com'' ''secret'' ''acme'') start))"
proof -
  have pw: "''secret'' \<noteq> []" by simp
  let ?carol = "login_form ''carol@example.com'' ''secret'' ''acme''"
  let ?dummy = "login_form ''dummy@example.com'' ''secret'' ''acme''"
  have realm_c: "get_realm example_site (get_subdomain example_site (form_request ?carol)) = Some acme"
    by (simp add: example_login_form example_site_realm)
  have realm_d: "get_realm example_site (get_subdomain example_site (form_request ?dummy)) = Some acme"
    by (simp add: example_login_form example_site_realm)
  have ret_c: "authenticate example_site (form_request ?carol) ''carol@example.com'' ''secret'' acme
                 Map.empty (ext start) = (Returned None [''inactive_user'' \<mapsto> True], 1)"
    by (simp add: example_site_def example_authenticate_def start_def acme_def)
  have ret_d: "authenticate example_site (form_request ?dummy) ''dummy@example.com'' ''secret'' acme
                 Map.empty (ext start) =
               (Returned None [''is_mirror_dummy'' \<mapsto> True, ''inactive_user'' \<mapsto> True], 1)"
    by (simp add: example_site_def example_authenticate_def start_def acme_def)
  have c: "clean example_site ?carol start =
     (Inl (validation_error DEACTIVATED_ACCOUNT_ERROR), ?carol, start \<lparr> ext := 1 \<rparr>)"
    using clean_inactive_user
      [OF example_login_form(1) example_login_form(2) pw realm_c ret_c]
    by (simp add: flag_def login_form_def)
  have d: "clean example_site ?dummy start =
     (Inl (ValidationError ''Please enter a correct email and password.'' (Some ''invalid_login'')
            [(''username'', ''email'')]), ?dummy, start \<lparr> ext := 1 \<rparr>)"
    using clean_inactive_user
      [OF example_login_form(1) example_login_form(2) pw realm_d ret_d]
    by (simp add: flag_def login_form_def) (simp add: example_site_def)
  let ?nobody = "login_form ''nobody@example.com'' ''secret'' ''acme''"
  have realm_n: "get_realm example_site (get_subdomain example_site (form_request ?nobody)) = Some acme"
    by (simp add: example_login_form example_site_realm)
  have ret_n: "authenticate example_site (form_request ?nobody) ''nobody@example.com'' ''secret'' acme
                 Map.empty (ext start) = (Returned None Map.empty, 1)"
    by (simp add: example_site_def example_authenticate_def start_def acme_def)
  have n: "clean example_site ?nobody start =
     (Inl (ValidationError ''Please enter a correct email and password.'' (Some ''invalid_login'')
            [(''username'', ''email'')]), ?nobody, start \<lparr> ext := 1 \<rparr>)"
    using clean_returned [OF example_login_form(1) example_login_form(2) pw realm_n ret_n]
    by (simp add: flag_def login_form_def) (simp add: example_site_def)
  show ?thesis
    using c d n by simp
qed

lemma sublist_middle: "sublist b (a @ b @ c)"
  by (auto simp add: sublist_def)

lemma sublist_end: "sublist b (a @ u @ c @ b)"
proof -
  have "a @ u @ c @ b = (a @ u @ c) @ b @ []" by simp
  then show ?thesis unfolding sublist_def by blast
qed

text \<open>
  C4, as amended. When \<open>authenticate\<close> returns with the \<open>invalid_subdomain\<close> flag set and the
  three earlier checks do not apply, \<open>clean\<close> raises the \<open>ValidationError\<close> with the fixed
  wrong-subdomain message and appends one record at level WARNING whose rendered message
  is \<open>User <username> attempted password login to wrong subdomain <subdomain>\<close>, where
  the subdomain is the one of the request: the message contains the username and the
  subdomain the login was attempted against.
\<close>

theorem clean_wrong_subdomain:
  assumes "cleaned_data self ''username'' = Some username"
    and "cleaned_data self ''password'' = Some password"
    and "password \<noteq> []"
    and "get_realm env (get_subdomain env (form_request self)) = Some realm"
    and "authenticate env (form_request self) username password realm Map.empty (ext w) =
           (Returned user return_data, x)"
    and "flag return_data ''invalid_subdomain''"
    and "\<not> flag return_data ''inactive_realm''"
    and "\<not> flag return_data ''password_reset_needed''"
    and "flag return_data ''inactive_user'' \<longrightarrow> flag return_data ''is_mirror_dummy''"
  shows "clean env self w =
           (Inl (validation_error WRONG_SUBDOMAIN_ERROR), self \<lparr> user_cache := user \<rparr>,
            w \<lparr> ext := x,
                logs := logs w @
                  [\<lparr> levelname = WARNING,
                     log_msg = ''User %s attempted password login to wrong subdomain %s'',
                     log_args = [username, get_subdomain env (form_request self)] \<rparr>] \<rparr>)
         \<and> getMessage
               \<lparr> levelname = WARNING,
                 log_msg = ''User %s attempted password login to wrong subdomain %s'',
                 log_args = [username, get_subdomain env (form_request self)] \<rparr> =
             ''User '' @ username @ '' attempted password login to wrong subdomain ''
             @ get_subdomain env (form_request self)
         \<and> sublist username
             (''User '' @ username @ '' attempted password login to wrong subdomain ''
              @ get_subdomain env (form_request self))
         \<and> sublist (get_subdomain env (form_request self))
             (''User '' @ username @ '' attempted password login to wrong subdomain ''
              @ get_subdomain env (form_request self))"
proof (intro conjI)
  from assms show "clean env self w =
           (Inl (validation_error WRONG_SUBDOMAIN_ERROR), self \<lparr> user_cache := user \<rparr>,
            w \<lparr> ext := x,
                logs := logs w @
                  [\<lparr> levelname = WARNING,
                     log_msg = ''User %s attempted password login to wrong subdomain %s'',
                     log_args = [username, get_subdomain env (form_request self)] \<rparr>] \<rparr>)"
    by (auto simp add: clean_returned logging_warning_def)
  show "getMessage
               \<lparr> levelname = WARNING,
                 log_msg = ''User %s attempted password login to wrong subdomain %s'',
                 log_args = [username, get_subdomain env (form_request self)] \<rparr> =
             ''User '' @ username @ '' attempted password login to wrong subdomain ''
             @ get_subdomain env (form_request self)"
    unfolding getMessage_def by (simp only: log_record.simps format_wrong_subdomain)
  show "sublist username
             (''User '' @ username @ '' attempted password login to wrong subdomain ''
              @ get_subdomain env (form_request self))"
    by (rule sublist_middle)
  show "sublist (get_subdomain env (form_request self))
             (''User '' @ username @ '' attempted password login to wrong subdomain ''
              @ get_subdomain env (form_request self))"
    by (rule sublist_end)
qed

lemma example_wrong_realm:
  "clean example_site (login_form ''bob@example.com'' ''P@ssw0rd1'' ''other'') start =
     (Inl (validation_error WRONG_SUBDOMAIN_ERROR),
      login_form ''bob@example.com'' ''P@ssw0rd1'' ''other'',
      \<lparr> logs = [\<lparr> levelname = WARNING,
                  log_msg = ''User %s attempted password login to wrong subdomain %s'',
                  log_args = [''bob@example.com'', ''other''] \<rparr>],
        outbox = [], ext = 1 \<rparr>)"
proof -
  have pw: "''P@ssw0rd1'' \<noteq> []" by simp
  let ?self = "login_form ''bob@example.com'' ''P@ssw0rd1'' ''other''"
  have realm: "get_realm example_site (get_subdomain example_site (form_request ?self)) = Some other"
    by (simp add: example_login_form example_site_realm)
  have ret: "authenticate example_site (form_request ?self) ''bob@example.com'' ''P@ssw0rd1'' other
               Map.empty (ext start) = (Returned None [''invalid_subdomain'' \<mapsto> True], 1)"
    by (simp add: example_site_def example_authenticate_def start_def other_def)
  show ?thesis
    using clean_returned [OF example_login_form(1) example_login_form(2) pw realm ret]
    by (simp add: flag_def login_form_def logging_warning_def start_def)
      (simp add: example_site_def)
qed

text \<open>C4, an instance: Bob, who belongs to \<open>acme\<close>, logs in at \<open>other\<close>.\<close>

theorem clean_wrong_subdomain_witness:
  "clean example_site (login_form ''bob@example.com'' ''P@ssw0rd1'' ''other'') start =
     (Inl (validation_error WRONG_SUBDOMAIN_ERROR),
      login_form ''bob@example.com'' ''P@ssw0rd1'' ''other'',
      \<lparr> logs = [\<lparr> levelname = WARNING,
                  log_msg = ''User %s attempted password login to wrong subdomain %s'',
                  log_args = [''bob@example.com'', ''other''] \<rparr>],
        outbox = [], ext = 1 \<rparr>)
   \<and> sublist ''bob@example.com''
        ''User bob@example.com attempted password login to wrong subdomain other''
   \<and> sublist ''other''
        ''User bob@example.com attempted password login to wrong subdomain other''"
proof -
  have pw: "''P@ssw0rd1'' \<noteq> []" by simp
  let ?self = "login_form ''bob@example.com'' ''P@ssw0rd1'' ''other''"
  have realm: "get_realm example_site (get_subdomain example_site (form_request ?self)) = Some other"
    by (simp add: example_login_form example_site_realm)
  have ret: "authenticate example_site (form_request ?self) ''bob@example.com'' ''P@ssw0rd1'' other
               Map.empty (ext start) = (Returned None [''invalid_subdomain'' \<mapsto> True], 1)"
    by (simp add: example_site_def example_authenticate_def start_def other_def)
  have flags: "flag [''invalid_subdomain'' \<mapsto> True] ''invalid_subdomain''"
    "\<not> flag [''invalid_subdomain'' \<mapsto> True] ''inactive_realm''"
    "\<not> flag [''invalid_subdomain'' \<mapsto> True] ''password_reset_needed''"
    "flag [''invalid_subdomain'' \<mapsto> True] ''inactive_user'' \<longrightarrow>
       flag [''invalid_subdomain'' \<mapsto> True] ''is_mirror_dummy''"
    by (simp_all add: flag_def)
  from clean_wrong_subdomain
    [OF example_login_form(1) example_login_form(2) pw realm ret flags]
  show ?thesis
    by (simp add: login_form_def start_def) (simp add: example_site_def)
qed

text \<open>
  C4 as stated fails: Bob's account belongs to the realm \<open>acme\<close> only, the login at \<open>other\<close>
  gets the wrong-subdomain error, and the one message logged does not contain \<open>acme\<close>.
\<close>

theorem wrong_subdomain_log_counterexample:
  "fst (clean example_site (login_form ''bob@example.com'' ''P@ssw0rd1'' ''other'') start) =
     Inl (validation_error WRONG_SUBDOMAIN_ERROR)
   \<and> get_user_by_delivery_email example_site ''bob@example.com'' acme = Some bob
   \<and> get_user_by_delivery_email example_site ''bob@example.com'' other = None
   \<and> string_id (user_realm bob) = ''acme''
   \<and> map getMessage
        (logs (snd (snd (clean example_site
                           (login_form ''bob@example.com'' ''P@ssw0rd1'' ''other'') start)))) =
       [''User bob@example.com attempted password login to wrong subdomain other'']
   \<and> \<not> sublist ''acme''
          ''User bob@example.com attempted password login to wrong subdomain other''"
  by (simp add: example_wrong_realm getMessage_def sublist_code)
    (simp add: example_site_def bob_def acme_def other_def)


section \<open>Claims on \<open>ZulipPasswordResetForm.save\<close>\<close>


lemma save_dispatch_no_active_account:
  assumes "found = get_user_by_delivery_email env email realm"
    and "found = None \<or> (\<exists>u. found = Some u \<and> \<not> is_active u)"
  shows "save_dispatch env email realm tg request w =
     (Inr (),
      send_email
        \<lparr> template_prefix = ''zerver/emails/password_reset'',
          to_user_ids = None,
          to_emails = Some [email],
          from_name = Some (security_email_from_name_language env (LANGUAGE_CODE request)),
          from_address = Some (tokenized_no_reply_address env),
          email_language = Some (LANGUAGE_CODE request),
          email_context =
            [(''email'', CStr email), (''realm_uri'', CStr (uri realm)),
             (''realm_name'', CStr (realm_name realm))]
            @ (if found = None then [] else [(''user_deactivated'', CBool True)])
            @ [(''active_account_in_realm'', CBool False)]
            @ (if active_accounts_iexact env email = [] then []
               else [(''active_accounts_in_other_realms'',
                      CUsers (active_accounts_iexact env email))]),
          email_realm = Some realm \<rparr> w)"
  using assms by (auto simp add: save_dispatch_def Let_def)

lemma save_dispatch_active_account:
  assumes "get_user_by_delivery_email env email realm = Some u" and "is_active u"
  shows "save_dispatch env email realm tg request w =
     (Inr (),
      send_email
        \<lparr> template_prefix = ''zerver/emails/password_reset'',
          to_user_ids = Some [user_id u],
          to_emails = None,
          from_name = Some (security_email_from_name_user env u),
          from_address = Some (tokenized_no_reply_address env),
          email_language = None,
          email_context =
            [(''email'', CStr email), (''realm_uri'', CStr (uri realm)),
             (''realm_name'', CStr (realm_name realm)),
             (''active_account_in_realm'', CBool True),
             (''reset_url'', CStr (generate_password_reset_url env u tg))],
          email_realm = None \<rparr> w)"
  using assms by (simp add: save_dispatch_def Let_def)


lemma save_dispatch_ext: "ext (snd (save_dispatch env email realm tg request w)) = ext w"
  by (simp add: save_dispatch_def Let_def send_email_def split: option.splits)

lemma save_passes_gates:
  assumes "cleaned_data self ''email'' = Some email"
    and "get_realm env (get_subdomain env request) = Some realm"
    and "email_auth_enabled env realm"
    and "\<not> email_belongs_to_ldap env realm email"
    and "\<not> deactivated realm"
    and "RATE_LIMITING env \<longrightarrow> \<not> fst (fst (rate_limit env (key email) (rules env) (ext w)))"
  shows "save env self tg request w =
     save_dispatch env email realm tg request
       (if RATE_LIMITING env then
          w \<lparr> ext := snd (rate_limit env (key email) (rules env) (ext w)) \<rparr>
        else w)"
  using assms
  by (auto simp add: save_def rate_limit_password_reset_form_by_email_def split: prod.splits)

lemma save_rate_limited:
  assumes "cleaned_data self ''email'' = Some email"
    and "get_realm env (get_subdomain env request) = Some realm"
    and "email_auth_enabled env realm"
    and "\<not> email_belongs_to_ldap env realm email"
    and "\<not> deactivated realm"
    and "RATE_LIMITING env"
    and "fst (fst (rate_limit env (key email) (rules env) (ext w)))"
  shows "save env self tg request w =
     (Inr (),
      w \<lparr> ext := snd (rate_limit env (key email) (rules env) (ext w)),
          logs := logs w @
            [\<lparr> levelname = INFO, log_msg = ''Too many password reset attempts for email %s'',
               log_args = [email] \<rparr>] \<rparr>)"
  using assms
  by (auto simp add: save_def rate_limit_password_reset_form_by_email_def logging_info_def
      split: prod.splits)

text \<open>
  C6. When \<open>save\<close> passes its four early exits: if the email has no account in the realm
  or the account is deactivated, exactly one email is sent, to the submitted address, with
  no user id, with the language of the request and with \<open>active_account_in_realm\<close> false
  in its context; the two cases differ only by the entry \<open>user_deactivated\<close> of the context.
  If the account is found and active, exactly one email is sent, addressed by the user's
  id, with the reset URL. Nothing is logged in either case.
\<close>

theorem save_no_active_account_shape:
  assumes "cleaned_data self ''email'' = Some email"
    and "get_realm env (get_subdomain env request) = Some realm"
    and "email_auth_enabled env realm"
    and "\<not> email_belongs_to_ldap env realm email"
    and "\<not> deactivated realm"
    and "RATE_LIMITING env \<longrightarrow> \<not> fst (fst (rate_limit env (key email) (rules env) (ext w)))"
    and "found = get_user_by_delivery_email env email realm"
    and "w' = (if RATE_LIMITING env then
                 w \<lparr> ext := snd (rate_limit env (key email) (rules env) (ext w)) \<rparr>
               else w)"
  shows "(found = None \<or> (\<exists>u. found = Some u \<and> \<not> is_active u) \<longrightarrow>
            save env self tg request w =
              (Inr (),
               w' \<lparr> outbox := outbox w @
                 [\<lparr> template_prefix = ''zerver/emails/password_reset'',
                    to_user_ids = None,
                    to_emails = Some [email],
                    from_name = Some (security_email_from_name_language env (LANGUAGE_CODE request)),
                    from_address = Some (tokenized_no_reply_address env),
                    email_language = Some (LANGUAGE_CODE request),
                    email_context =
                      [(''email'', CStr email), (''realm_uri'', CStr (uri realm)),
                       (''realm_name'', CStr (realm_name realm))]
                      @ (if found = None then [] else [(''user_deactivated'', CBool True)])
                      @ [(''active_account_in_realm'', CBool False)]
                      @ (if active_accounts_iexact env email = [] then []
                         else [(''active_accounts_in_other_realms'',
                                CUsers (active_accounts_iexact env email))]),
                    email_realm = Some realm \<rparr>] \<rparr>))
       \<and> (\<forall>u. found = Some u \<and> is_active u \<longrightarrow>
            save env self tg request w =
              (Inr (),
               w' \<lparr> outbox := outbox w @
                 [\<lparr> template_prefix = ''zerver/emails/password_reset'',
                    to_user_ids = Some [user_id u],
                    to_emails = None,
                    from_name = Some (security_email_from_name_user env u),
                    from_address = Some (tokenized_no_reply_address env),
                    email_language = None,
                    email_context =
                      [(''email'', CStr email), (''realm_uri'', CStr (uri realm)),
                       (''realm_name'', CStr (realm_name realm)),
                       (''active_account_in_realm'', CBool True),
                       (''reset_url'', CStr (generate_password_reset_url env u tg))],
                    email_realm = None \<rparr>] \<rparr>))"
proof (intro conjI impI allI)
  have pass: "save env self tg request w = save_dispatch env email realm tg request w'"
    unfolding assms(8) using assms(1-6) by (rule save_passes_gates)
  have ob: "outbox w' = outbox w"
    by (simp add: assms(8))
  {
    assume "found = None \<or> (\<exists>u. found = Some u \<and> \<not> is_active u)"
    with assms(7) pass ob show "save env self tg request w =
              (Inr (),
               w' \<lparr> outbox := outbox w @
                 [\<lparr> template_prefix = ''zerver/emails/password_reset'',
                    to_user_ids = None,
                    to_emails = Some [email],
                    from_name = Some (security_email_from_name_language env (LANGUAGE_CODE request)),
                    from_address = Some (tokenized_no_reply_address env),
                    email_language = Some (LANGUAGE_CODE request),
                    email_context =
                      [(''email'', CStr email), (''realm_uri'', CStr (uri realm)),
                       (''realm_name'', CStr (realm_name realm))]
                      @ (if found = None then [] else [(''user_deactivated'', CBool True)])
                      @ [(''active_account_in_realm'', CBool False)]
                      @ (if active_accounts_iexact env email = [] then []
                         else [(''active_accounts_in_other_realms'',
                                CUsers (active_accounts_iexact env email))]),
                    email_realm = Some realm \<rparr>] \<rparr>)"
      by (simp only: save_dispatch_no_active_account send_email_def)
  }
  {
    fix u
    assume "found = Some u \<and> is_active u"
    with assms(7) have "get_user_by_delivery_email env email realm = Some u" and "is_active u"
      by simp_all
    with pass ob show "save env self tg request w =
              (Inr (),
               w' \<lparr> outbox := outbox w @
                 [\<lparr> template_prefix = ''zerver/emails/password_reset'',
                    to_user_ids = Some [user_id u],
                    to_emails = None,
                    from_name = Some (security_email_from_name_user env u),
                    from_address = Some (tokenized_no_reply_address env),
                    email_language = None,
                    email_context =
                      [(''email'', CStr email), (''realm_uri'', CStr (uri realm)),
                       (''realm_name'', CStr (realm_name realm)),
                       (''active_account_in_realm'', CBool True),
                       (''reset_url'', CStr (generate_password_reset_url env u tg))],
                    email_realm = None \<rparr>] \<rparr>)"
      by (simp only: save_dispatch_active_account send_email_def)
  }
qed


text \<open>
  C8, as amended. The key is the class name \<open>RateLimitedPasswordResetByEmail\<close>, a colon and
  the email exactly as submitted, so two emails have the same key only if they are equal;
  \<open>rate_limit_password_reset_form_by_email\<close> raises \<open>RateLimited\<close> if and only if
  \<open>rate_limit\<close> reports that key limited, and \<open>save\<close> consults the limiter with the key of
  the email of \<open>cleaned_data\<close>.
\<close>

theorem password_reset_key:
  "key email = ''RateLimitedPasswordResetByEmail:'' @ email
   \<and> (key email1 = key email2) = (email1 = email2)
   \<and> (fst (rate_limit_password_reset_form_by_email env email x) = Inl (RateLimited None))
       = fst (fst (rate_limit env (key email) (rules env) x))
   \<and> (fst (rate_limit_password_reset_form_by_email env email x) = Inr ())
       = (\<not> fst (fst (rate_limit env (key email) (rules env) x)))
   \<and> snd (rate_limit_password_reset_form_by_email env email x)
       = snd (rate_limit env (key email) (rules env) x)
   \<and> (cleaned_data self ''email'' = Some email
        \<and> get_realm env (get_subdomain env request) = Some realm
        \<and> email_auth_enabled env realm \<and> \<not> email_belongs_to_ldap env realm email
        \<and> \<not> deactivated realm \<and> RATE_LIMITING env \<longrightarrow>
        ext (snd (save env self tg request w))
          = snd (rate_limit env (key email) (rules env) (ext w)))"
proof (intro conjI impI)
  show "key email = ''RateLimitedPasswordResetByEmail:'' @ email"
    by (simp add: key_def)
  show "(key email1 = key email2) = (email1 = email2)"
    by (simp add: key_def)
  show "(fst (rate_limit_password_reset_form_by_email env email x) = Inl (RateLimited None))
       = fst (fst (rate_limit env (key email) (rules env) x))"
    by (auto simp add: rate_limit_password_reset_form_by_email_def split: prod.splits)
  show "(fst (rate_limit_password_reset_form_by_email env email x) = Inr ())
       = (\<not> fst (fst (rate_limit env (key email) (rules env) x)))"
    by (auto simp add: rate_limit_password_reset_form_by_email_def split: prod.splits)
  show "snd (rate_limit_password_reset_form_by_email env email x)
       = snd (rate_limit env (key email) (rules env) x)"
    by (auto simp add: rate_limit_password_reset_form_by_email_def split: prod.splits)
next
  assume gates: "cleaned_data self ''email'' = Some email
        \<and> get_realm env (get_subdomain env request) = Some realm
        \<and> email_auth_enabled env realm \<and> \<not> email_belongs_to_ldap env realm email
        \<and> \<not> deactivated realm \<and> RATE_LIMITING env"
  show "ext (snd (save env self tg request w))
          = snd (rate_limit env (key email) (rules env) (ext w))"
  proof (cases "fst (fst (rate_limit env (key email) (rules env) (ext w)))")
    case True
    with gates show ?thesis
      by (simp add: save_rate_limited)
  next
    case False
    with gates have "save env self tg request w =
      save_dispatch env email realm tg request
        (if RATE_LIMITING env then
           w \<lparr> ext := snd (rate_limit env (key email) (rules env) (ext w)) \<rparr>
         else w)"
      by (intro save_passes_gates) simp_all
    with gates show ?thesis
      by (simp add: save_dispatch_ext)
  qed
qed

text \<open>
  C8 as stated fails: \<open>Bob@x.com\<close> and \<open>bob@x.com\<close> have different keys, so they do not
  share a counter.
\<close>

theorem key_case_variants_counterexample:
  "key ''Bob@x.com'' \<noteq> key ''bob@x.com''"
  by (simp add: key_def)

lemma example_reset_form:
  "cleaned_data (reset_form e) ''email'' = Some e"
  by (simp add: reset_form_def)

lemma example_reset_realm:
  "get_realm example_site (get_subdomain example_site (reset_request ''acme'')) = Some acme"
  "get_realm example_site (get_subdomain example_site (reset_request ''closed'')) = Some closed"
  by (simp_all add: example_site_def reset_request_def)

lemma example_gates:
  "email_auth_enabled example_site r"
  "\<not> email_belongs_to_ldap example_site r e"
  "RATE_LIMITING example_site"
  "rate_limit example_site k rs n = ((5 \<le> n, 60), Suc n)"
  "\<not> deactivated acme"
  "deactivated closed"
  by (simp_all add: example_site_def acme_def closed_def)

text \<open>
  C6, instances: Carol (deactivated), an address without account, and Bob (active).
\<close>

theorem save_no_active_account_shape_witness:
  "save example_site (reset_form ''carol@example.com'') (\<lambda>u. ''tok'') (reset_request ''acme'') start =
     (Inr (),
      \<lparr> logs = [],
        outbox =
          [\<lparr> template_prefix = ''zerver/emails/password_reset'',
             to_user_ids = None,
             to_emails = Some [''carol@example.com''],
             from_name = Some ''Zulip Account Security'',
             from_address = Some ''noreply-token@example.com'',
             email_language = Some ''de'',
             email_context =
               [(''email'', CStr ''carol@example.com''),
                (''realm_uri'', CStr ''https://acme.example.com''),
                (''realm_name'', CStr ''Acme''),
                (''user_deactivated'', CBool True),
                (''active_account_in_realm'', CBool False)],
             email_realm = Some acme \<rparr>],
        ext = 1 \<rparr>)
   \<and> save example_site (reset_form ''nobody@example.com'') (\<lambda>u. ''tok'') (reset_request ''acme'') start =
     (Inr (),
      \<lparr> logs = [],
        outbox =
          [\<lparr> template_prefix = ''zerver/emails/password_reset'',
             to_user_ids = None,
             to_emails = Some [''nobody@example.com''],
             from_name = Some ''Zulip Account Security'',
             from_address = Some ''noreply-token@example.com'',
             email_language = Some ''de'',
             email_context =
               [(''email'', CStr ''nobody@example.com''),
                (''realm_uri'', CStr ''https://acme.example.com''),
                (''realm_name'', CStr ''Acme''),
                (''active_account_in_realm'', CBool False)],
             email_realm = Some acme \<rparr>],
        ext = 1 \<rparr>)
   \<and> save example_site (reset_form ''bob@example.com'') (\<lambda>u. ''tok'') (reset_request ''acme'') start =
     (Inr (),
      \<lparr> logs = [],
        outbox =
          [\<lparr> template_prefix = ''zerver/emails/password_reset'',
             to_user_ids = Some [7],
             to_emails = None,
             from_name = Some ''Zulip Account Security'',
             from_address = Some ''noreply-token@example.com'',
             email_language = None,
             email_context =
               [(''email'', CStr ''bob@example.com''),
                (''realm_uri'', CStr ''https://acme.example.com''),
                (''realm_name'', CStr ''Acme''),
                (''active_account_in_realm'', CBool True),
                (''reset_url'', CStr ''https://acme.example.com/accounts/password/reset/7tok'')],
             email_realm = None \<rparr>],
        ext = 1 \<rparr>)"
proof -
  have open_gate:
    "RATE_LIMITING example_site \<longrightarrow>
       \<not> fst (fst (rate_limit example_site (key e) (rules example_site) (ext start)))" for e
    by (simp add: example_gates start_def)
  have carol_found: "get_user_by_delivery_email example_site ''carol@example.com'' acme = Some carol"
    and nobody_found: "get_user_by_delivery_email example_site ''nobody@example.com'' acme = None"
    and bob_found: "get_user_by_delivery_email example_site ''bob@example.com'' acme = Some bob"
    by (simp_all add: example_site_def acme_def)
  have others: "active_accounts_iexact example_site ''carol@example.com'' = []"
    "active_accounts_iexact example_site ''nobody@example.com'' = []"
    by (simp_all add: example_site_def)
  have misc: "security_email_from_name_language example_site l = ''Zulip Account Security''"
    "security_email_from_name_user example_site u = ''Zulip Account Security''"
    "tokenized_no_reply_address example_site = ''noreply-token@example.com''"
    "LANGUAGE_CODE (reset_request h) = ''de''" for l u h
    by (simp_all add: example_site_def reset_request_def)
  have url: "generate_password_reset_url example_site bob (\<lambda>u. ''tok'') =
               ''https://acme.example.com/accounts/password/reset/7tok''"
    by (simp add: generate_password_reset_url_def example_site_def bob_def acme_def
        str_of_int_def digits10.simps)
  have realm_fields: "uri acme = ''https://acme.example.com''" "realm_name acme = ''Acme''"
    by (simp_all add: acme_def)
  note shape = save_no_active_account_shape
    [OF example_reset_form example_reset_realm(1) example_gates(1) example_gates(2)
      example_gates(5) open_gate refl refl, where tg = "\<lambda>u. ''tok''"]
  have c: "\<not> is_active carol" and b: "is_active bob" and bid: "user_id bob = 7"
    by (simp_all add: carol_def bob_def)
  from shape [of "''carol@example.com''"] carol_found c
  have 1: "save example_site (reset_form ''carol@example.com'') (\<lambda>u. ''tok'') (reset_request ''acme'') start =
     (Inr (),
      \<lparr> logs = [],
        outbox =
          [\<lparr> template_prefix = ''zerver/emails/password_reset'',
             to_user_ids = None,
             to_emails = Some [''carol@example.com''],
             from_name = Some ''Zulip Account Security'',
             from_address = Some ''noreply-token@example.com'',
             email_language = Some ''de'',
             email_context =
               [(''email'', CStr ''carol@example.com''),
                (''realm_uri'', CStr ''https://acme.example.com''),
                (''realm_name'', CStr ''Acme''),
                (''user_deactivated'', CBool True),
                (''active_account_in_realm'', CBool False)],
             email_realm = Some acme \<rparr>],
        ext = 1 \<rparr>)"
    by (simp add: others misc realm_fields example_gates start_def)
  from shape [of "''nobody@example.com''"] nobody_found
  have 2: "save example_site (reset_form ''nobody@example.com'') (\<lambda>u. ''tok'') (reset_request ''acme'') start =
     (Inr (),
      \<lparr> logs = [],
        outbox =
          [\<lparr> template_prefix = ''zerver/emails/password_reset'',
             to_user_ids = None,
             to_emails = Some [''nobody@example.com''],
             from_name = Some ''Zulip Account Security'',
             from_address = Some ''noreply-token@example.com'',
             email_language = Some ''de'',
             email_context =
               [(''email'', CStr ''nobody@example.com''),
                (''realm_uri'', CStr ''https://acme.example.com''),
                (''realm_name'', CStr ''Acme''),
                (''active_account_in_realm'', CBool False)],
             email_realm = Some acme \<rparr>],
        ext = 1 \<rparr>)"
    by (simp add: others misc realm_fields example_gates start_def)
  from shape [of "''bob@example.com''"] bob_found b
  have 3: "save example_site (reset_form ''bob@example.com'') (\<lambda>u. ''tok'') (reset_request ''acme'') start =
     (Inr (),
      \<lparr> logs = [],
        outbox =
          [\<lparr> template_prefix = ''zerver/emails/password_reset'',
             to_user_ids = Some [7],
             to_emails = None,
             from_name = Some ''Zulip Account Security'',
             from_address = Some ''noreply-token@example.com'',
             email_language = None,
             email_context =
               [(''email'', CStr ''bob@example.com''),
                (''realm_uri'', CStr ''https://acme.example.com''),
                (''realm_name'', CStr ''Acme''),
                (''active_account_in_realm'', CBool True),
                (''reset_url'', CStr ''https://acme.example.com/accounts/password/reset/7tok'')],
             email_realm = None \<rparr>],
        ext = 1 \<rparr>)"
    by (simp add: misc realm_fields example_gates start_def url bid)
  from 1 2 3 show ?thesis by (intro conjI)
qed


text \<open>C8, an instance: Bob's key, and the fifth and sixth attempt.\<close>

theorem password_reset_key_witness:
  "key ''bob@example.com'' = ''RateLimitedPasswordResetByEmail:bob@example.com''
   \<and> ext (snd (save example_site (reset_form ''bob@example.com'') (\<lambda>u. ''tok'')
                 (reset_request ''acme'') start)) = 1
   \<and> fst (rate_limit_password_reset_form_by_email example_site ''bob@example.com'' 5) =
       Inl (RateLimited None)
   \<and> fst (rate_limit_password_reset_form_by_email example_site ''bob@example.com'' 4) = Inr ()"
  using password_reset_key
    [of "''bob@example.com''" _ _ example_site 5 "reset_form ''bob@example.com''"
        "reset_request ''acme''" acme "\<lambda>u. ''tok''" start]
    password_reset_key [of "''bob@example.com''" _ _ example_site 4]
  by (simp add: example_reset_form example_reset_realm example_gates start_def)

text \<open>
  The realm is looked up inside \<open>save\<close> (line 306): for a request whose subdomain names no
  realm, the \<open>Realm.DoesNotExist\<close> of \<open>get_realm\<close> leaves \<open>save\<close> before any gate.
\<close>

lemma save_unknown_realm_raises:
  "get_realm example_site (get_subdomain example_site (reset_request ''nosuch'')) = None
   \<and> save example_site (reset_form ''bob@example.com'') (\<lambda>u. ''tok'') (reset_request ''nosuch'')
        start = (Inl DoesNotExist, start)"
  by (simp add: save_def example_site_def reset_request_def reset_form_def)

end
